theory Spec2Isabelle
  imports Complex_Main
begin

section \<open>Data model\<close>

text \<open>
  The repository holds two copies of the class \<^verbatim>\<open>LiveTradingBot\<close>
  (\<^verbatim>\<open>bot/trade.py\<close> and \<^verbatim>\<open>Streamlit/bot.py\<close>) and two backtrader strategies
  (\<^verbatim>\<open>FixedExitStrategy\<close> in \<^verbatim>\<open>backtest/backtrader_test.py\<close>, \<^verbatim>\<open>EnhancedStrategy\<close> in
  \<^verbatim>\<open>Streamlit/live_trading_bot_streamlit.py\<close>).

  Prices are Python floats and are read here as real numbers; a timestamp is a real number
  of seconds, so that \<^verbatim>\<open>(t - e).total_seconds() / 60\<close> is \<open>(t - e) / 60\<close>. The strings
  \<^verbatim>\<open>'BUY'\<close>, \<^verbatim>\<open>'SELL'\<close>, \<^verbatim>\<open>'HOLD'\<close> are the constructors of \<open>signal\<close> (they are the
  values of a signal and of the \<^verbatim>\<open>'type'\<close> key of a trade), the strings
  \<^verbatim>\<open>"Take Profit"\<close>, \<^verbatim>\<open>"Stop Loss"\<close>, \<^verbatim>\<open>"Time Exit"\<close>, \<^verbatim>\<open>"Manual Stop"\<close>,
  \<^verbatim>\<open>"Trailing Stop"\<close> those of \<open>exit_reason\<close>. \<^verbatim>\<open>self.position\<close> is \<^verbatim>\<open>None\<close> or
  \<^verbatim>\<open>'LONG'\<close>.
\<close>

datatype side = LONG

datatype signal = BUY | SELL | HOLD

datatype exit_reason = Take_Profit | Stop_Loss | Time_Exit | Manual_Stop | Trailing_Stop

datatype py_error = TypeError | AttributeError

text \<open>A trade dictionary; a BUY has no \<^verbatim>\<open>'profit'\<close> and no \<^verbatim>\<open>'reason'\<close> key.\<close>

record trade =
  t_type :: signal
  t_price :: real
  t_timestamp :: real
  t_profit :: "real option"
  t_reason :: "exit_reason option"

text \<open>
  The data frame \<^verbatim>\<open>self.data\<close>, of which the bot reads the index (a timestamp) and the
  \<^verbatim>\<open>Close\<close> column: a list of rows, \<^verbatim>\<open>iloc[-1]\<close> being the last one.
\<close>

type_synonym frame = "(real \<times> real) list"

text \<open>
  The attributes of \<^verbatim>\<open>LiveTradingBot\<close> in \<^verbatim>\<open>Streamlit/bot.py\<close>; the class in
  \<^verbatim>\<open>bot/trade.py\<close> has one more, \<^verbatim>\<open>interval_minutes\<close>.
\<close>

record streamlit_bot =
  symbol :: string
  stop_loss_percent :: real
  take_profit_percent :: real
  max_hold_minutes :: real
  interval :: string
  position :: "side option"
  entry_price :: real
  entry_time :: "real option"
  data :: frame
  buy_signals :: "(real \<times> real) list"
  sell_signals :: "(real \<times> real) list"
  trades :: "trade list"
  is_running :: bool

record trade_bot = streamlit_bot +
  interval_minutes :: real

text \<open>
  What \<^verbatim>\<open>stock.history\<close> does inside \<^verbatim>\<open>get_live_data\<close>: it returns a frame (which may be
  empty) or raises.
\<close>

datatype fetch = Fetched frame | Fetch_error

section \<open>\<^verbatim>\<open>bot/trade.py\<close>\<close>

definition init :: "string \<Rightarrow> real \<Rightarrow> real \<Rightarrow> real \<Rightarrow> string \<Rightarrow> trade_bot" where
  "init symb slp tpp mhm iv =
     \<lparr>symbol = symb,
      stop_loss_percent = slp / 100,
      take_profit_percent = tpp / 100,
      max_hold_minutes = mhm,
      interval = iv,
      position = None,
      entry_price = 0,
      entry_time = None,
      data = [],
      buy_signals = [],
      sell_signals = [],
      trades = [],
      is_running = False,
      interval_minutes = (if iv = ''1m'' then 1 else 15)\<rparr>"

text \<open>When the fetch raises, the handler returns an empty frame and \<^verbatim>\<open>self.data\<close> keeps
  its old value.\<close>

definition get_live_data :: "fetch \<Rightarrow> trade_bot \<Rightarrow> trade_bot" where
  "get_live_data f s = (case f of Fetched d \<Rightarrow> s\<lparr>data := d\<rparr> | Fetch_error \<Rightarrow> s)"

text \<open>\<^verbatim>\<open>timestamp - self.entry_time\<close> raises a TypeError while \<^verbatim>\<open>entry_time\<close> is
  \<^verbatim>\<open>None\<close>.\<close>

definition calculate_signals :: "trade_bot \<Rightarrow> real \<Rightarrow> real \<Rightarrow> py_error + signal" where
  "calculate_signals s current_price tstamp =
     (case position s of
        None \<Rightarrow> Inr BUY
      | Some LONG \<Rightarrow>
          if current_price \<le> entry_price s * (1 - stop_loss_percent s) then Inr SELL
          else if current_price \<ge> entry_price s * (1 + take_profit_percent s) then Inr SELL
          else (case entry_time s of
                  None \<Rightarrow> Inl TypeError
                | Some e \<Rightarrow>
                    (let hold_time = (tstamp - e) / 60 in
                     if hold_time \<ge> max_hold_minutes s * interval_minutes s then Inr SELL
                     else Inr HOLD)))"

definition execute_trade :: "signal \<Rightarrow> real \<Rightarrow> real \<Rightarrow> trade_bot \<Rightarrow> py_error + trade_bot" where
  "execute_trade sg current_price tstamp s =
     (if sg = BUY \<and> position s = None then
        Inr (s\<lparr>position := Some LONG,
               entry_price := current_price,
               entry_time := Some tstamp,
               buy_signals := buy_signals s @ [(tstamp, current_price)],
               trades := trades s @
                 [\<lparr>t_type = BUY, t_price = current_price, t_timestamp = tstamp,
                   t_profit = None, t_reason = None\<rparr>]\<rparr>)
      else if sg = SELL \<and> position s = Some LONG then
        (let profit = current_price - entry_price s in
         case entry_time s of
           None \<Rightarrow> Inl TypeError
         | Some e \<Rightarrow>
             (let hold_time = (tstamp - e) / 60;
                  exit_reason =
                    (if current_price \<ge> entry_price s * (1 + take_profit_percent s)
                       then Take_Profit
                     else if current_price \<le> entry_price s * (1 - stop_loss_percent s)
                       then Stop_Loss
                     else Time_Exit)
              in Inr (s\<lparr>position := None,
                        sell_signals := sell_signals s @ [(tstamp, current_price)],
                        trades := trades s @
                          [\<lparr>t_type = SELL, t_price = current_price, t_timestamp = tstamp,
                            t_profit = Some profit, t_reason = Some exit_reason\<rparr>]\<rparr>)))
      else Inr s)"

text \<open>
  One pass through the body of the \<^verbatim>\<open>while\<close> loop of \<^verbatim>\<open>run\<close>. An exception raised in
  the body is caught by the loop's handler, which prints it and sleeps; both raising places
  come before any assignment, so the state is then the one after the fetch. Plotting,
  printing, the CSV file and the sleep do not touch the attributes modelled here.
\<close>

definition run_iteration :: "fetch \<Rightarrow> trade_bot \<Rightarrow> trade_bot" where
  "run_iteration f s =
     (let s1 = get_live_data f s in
      if data s1 \<noteq> [] then
        (let current_price = snd (last (data s1));
             current_time = fst (last (data s1))
         in case calculate_signals s1 current_price current_time of
              Inl err \<Rightarrow> s1
            | Inr sg \<Rightarrow>
                (case execute_trade sg current_price current_time s1 of
                   Inl err \<Rightarrow> s1
                 | Inr s2 \<Rightarrow> s2))
      else s1)"

text \<open>
  The loop of \<^verbatim>\<open>run\<close> has no exit of its own: it runs while \<^verbatim>\<open>is_running\<close> holds. It is
  driven here by the list of the results of the fetches made so far, one per pass.
\<close>

fun run_loop :: "fetch list \<Rightarrow> trade_bot \<Rightarrow> trade_bot" where
  "run_loop [] s = s"
| "run_loop (f # fs) s = (if is_running s then run_loop fs (run_iteration f s) else s)"

definition run :: "fetch list \<Rightarrow> trade_bot \<Rightarrow> trade_bot" where
  "run fs s = run_loop fs (s\<lparr>is_running := True\<rparr>)"

text \<open>
  \<^verbatim>\<open>stop\<close> reads the clock with \<^verbatim>\<open>datetime.now()\<close> once for the sell marker and once
  more for the trade (and a third time for the printed line): the two readings are the
  first two arguments.
\<close>

definition stop :: "real \<Rightarrow> real \<Rightarrow> trade_bot \<Rightarrow> trade_bot" where
  "stop now_signal now_trade s =
     (let s1 = s\<lparr>is_running := False\<rparr> in
      if position s1 = Some LONG \<and> data s1 \<noteq> [] then
        (let current_price = snd (last (data s1));
             profit = current_price - entry_price s1
         in s1\<lparr>position := None,
                sell_signals := sell_signals s1 @ [(now_signal, current_price)],
                trades := trades s1 @
                  [\<lparr>t_type = SELL, t_price = current_price, t_timestamp = now_trade,
                    t_profit = Some profit, t_reason = Some Manual_Stop\<rparr>]\<rparr>)
      else s1)"

text \<open>
  What can happen to a bot from outside: a call of \<^verbatim>\<open>execute_trade\<close> (an exception leaves
  the bot as it was), a call of \<^verbatim>\<open>run\<close> that makes the given fetches, a single pass of
  the loop, and a call of \<^verbatim>\<open>stop\<close>.
\<close>

datatype event =
    Execute signal real real
  | Run "fetch list"
  | Iteration fetch
  | Stop real real

fun step :: "event \<Rightarrow> trade_bot \<Rightarrow> trade_bot" where
  "step (Execute sg p t) s = (case execute_trade sg p t s of Inl err \<Rightarrow> s | Inr s' \<Rightarrow> s')"
| "step (Run fs) s = run fs s"
| "step (Iteration f) s = run_iteration f s"
| "step (Stop n1 n2) s = stop n1 n2 s"

fun steps :: "event list \<Rightarrow> trade_bot \<Rightarrow> trade_bot" where
  "steps [] s = s"
| "steps (e # es) s = steps es (step e s)"

section \<open>\<^verbatim>\<open>Streamlit/bot.py\<close>\<close>

text \<open>
  The second copy of the class. It differs from the first in four places: there is no
  \<^verbatim>\<open>interval_minutes\<close>; \<^verbatim>\<open>execute_trade\<close> knows two reasons only and computes no hold
  time; the loop of \<^verbatim>\<open>run\<close> has no exception handler, so that an exception ends it; and
  \<^verbatim>\<open>stop\<close> only clears the flag. Writing the log and the CSV file is not modelled.
\<close>

definition init_st :: "string \<Rightarrow> real \<Rightarrow> real \<Rightarrow> real \<Rightarrow> string \<Rightarrow> streamlit_bot" where
  "init_st symb slp tpp mhm iv =
     \<lparr>symbol = symb,
      stop_loss_percent = slp / 100,
      take_profit_percent = tpp / 100,
      max_hold_minutes = mhm,
      interval = iv,
      position = None,
      entry_price = 0,
      entry_time = None,
      data = [],
      buy_signals = [],
      sell_signals = [],
      trades = [],
      is_running = False\<rparr>"

definition get_live_data_st :: "fetch \<Rightarrow> streamlit_bot \<Rightarrow> streamlit_bot" where
  "get_live_data_st f s = (case f of Fetched d \<Rightarrow> s\<lparr>data := d\<rparr> | Fetch_error \<Rightarrow> s)"

definition calculate_signals_st :: "streamlit_bot \<Rightarrow> real \<Rightarrow> real \<Rightarrow> py_error + signal" where
  "calculate_signals_st s current_price tstamp =
     (case position s of
        None \<Rightarrow> Inr BUY
      | Some LONG \<Rightarrow>
          if current_price \<le> entry_price s * (1 - stop_loss_percent s) then Inr SELL
          else if current_price \<ge> entry_price s * (1 + take_profit_percent s) then Inr SELL
          else (case entry_time s of
                  None \<Rightarrow> Inl TypeError
                | Some e \<Rightarrow>
                    (let hold_time = (tstamp - e) / 60 in
                     if hold_time \<ge> max_hold_minutes s then Inr SELL else Inr HOLD)))"

definition execute_trade_st :: "signal \<Rightarrow> real \<Rightarrow> real \<Rightarrow> streamlit_bot \<Rightarrow> streamlit_bot" where
  "execute_trade_st sg current_price tstamp s =
     (if sg = BUY \<and> position s = None then
        s\<lparr>position := Some LONG,
          entry_price := current_price,
          entry_time := Some tstamp,
          buy_signals := buy_signals s @ [(tstamp, current_price)],
          trades := trades s @
            [\<lparr>t_type = BUY, t_price = current_price, t_timestamp = tstamp,
              t_profit = None, t_reason = None\<rparr>]\<rparr>
      else if sg = SELL \<and> position s = Some LONG then
        (let profit = current_price - entry_price s;
             exit_reason =
               (if current_price \<ge> entry_price s * (1 + take_profit_percent s)
                  then Take_Profit
                else Stop_Loss)
         in s\<lparr>position := None,
              sell_signals := sell_signals s @ [(tstamp, current_price)],
              trades := trades s @
                [\<lparr>t_type = SELL, t_price = current_price, t_timestamp = tstamp,
                  t_profit = Some profit, t_reason = Some exit_reason\<rparr>]\<rparr>)
      else s)"

definition run_iteration_st :: "fetch \<Rightarrow> streamlit_bot \<Rightarrow> py_error + streamlit_bot" where
  "run_iteration_st f s =
     (let s1 = get_live_data_st f s in
      if data s1 \<noteq> [] then
        (let current_price = snd (last (data s1));
             current_time = fst (last (data s1))
         in case calculate_signals_st s1 current_price current_time of
              Inl err \<Rightarrow> Inl err
            | Inr sg \<Rightarrow> Inr (execute_trade_st sg current_price current_time s1))
      else Inr s1)"

fun run_loop_st :: "fetch list \<Rightarrow> streamlit_bot \<Rightarrow> py_error + streamlit_bot" where
  "run_loop_st [] s = Inr s"
| "run_loop_st (f # fs) s =
     (if is_running s then
        (case run_iteration_st f s of Inl err \<Rightarrow> Inl err | Inr s' \<Rightarrow> run_loop_st fs s')
      else Inr s)"

definition run_st :: "fetch list \<Rightarrow> streamlit_bot \<Rightarrow> py_error + streamlit_bot" where
  "run_st fs s = run_loop_st fs (s\<lparr>is_running := True\<rparr>)"

definition stop_st :: "streamlit_bot \<Rightarrow> streamlit_bot" where
  "stop_st s = s\<lparr>is_running := False\<rparr>"

section \<open>The backtrader strategies\<close>

text \<open>
  backtrader calls \<^verbatim>\<open>next\<close> once for each bar. What the framework supplies at that call
  is the argument: the bar's time and close, the values of the indicators, and whether the
  broker holds a position (\<^verbatim>\<open>self.position\<close>). \<^verbatim>\<open>self.order\<close> holds the order made
  by \<^verbatim>\<open>self.buy()\<close> or \<^verbatim>\<open>self.sell()\<close>. The dictionary appended to \<^verbatim>\<open>self.trades\<close> is
  a \<open>round_trip\<close>.
\<close>

record feed =
  datetime :: real
  close :: real
  ema_short :: real
  ema_long :: real
  rsi :: real
  atr :: real
  in_position :: bool

record round_trip =
  buy_time :: real
  buy_price :: real
  sell_time :: real
  sell_price :: real
  reason :: exit_reason

text \<open>\<^verbatim>\<open>FixedExitStrategy\<close> of \<^verbatim>\<open>backtest/backtrader_test.py\<close>. Its \<^verbatim>\<open>__init__\<close> sets
  \<^verbatim>\<open>entry_price\<close> and \<^verbatim>\<open>entry_time\<close> to \<^verbatim>\<open>None\<close>, on which the arithmetic of \<^verbatim>\<open>next\<close>
  raises a TypeError.\<close>

record fixed_exit_strategy =
  fx_stop_loss_percent :: real
  fx_take_profit_percent :: real
  fx_max_hold_minutes :: real
  fx_order :: "signal option"
  fx_entry_price :: "real option"
  fx_entry_time :: "real option"
  fx_trades :: "round_trip list"

text \<open>\<^verbatim>\<open>__init__\<close>; the arguments are the parameters of the strategy that \<^verbatim>\<open>next\<close>
  reads.\<close>

definition fixed_init :: "real \<Rightarrow> real \<Rightarrow> real \<Rightarrow> fixed_exit_strategy" where
  "fixed_init slp tpp mhm =
     \<lparr>fx_stop_loss_percent = slp,
      fx_take_profit_percent = tpp,
      fx_max_hold_minutes = mhm,
      fx_order = None,
      fx_entry_price = None,
      fx_entry_time = None,
      fx_trades = []\<rparr>"

definition fixed_next :: "feed \<Rightarrow> fixed_exit_strategy \<Rightarrow> py_error + fixed_exit_strategy" where
  "fixed_next b s =
     (if \<not> in_position b then
        Inr (s\<lparr>fx_order := Some BUY,
               fx_entry_price := Some (close b),
               fx_entry_time := Some (datetime b)\<rparr>)
      else
        (let current_price = close b in
         case fx_entry_time s of
           None \<Rightarrow> Inl TypeError
         | Some et \<Rightarrow>
             (let hold_time = (datetime b - et) / 60 in
              case fx_entry_price s of
                None \<Rightarrow> Inl TypeError
              | Some ep \<Rightarrow>
                  (let exit_reason =
                         (if current_price \<le> ep * (1 - fx_stop_loss_percent s)
                            then Some Stop_Loss
                          else if current_price \<ge> ep * (1 + fx_take_profit_percent s)
                            then Some Take_Profit
                          else if hold_time \<ge> fx_max_hold_minutes s
                            then Some Time_Exit
                          else None)
                   in case exit_reason of
                        None \<Rightarrow> Inr s
                      | Some r \<Rightarrow>
                          Inr (s\<lparr>fx_order := Some SELL,
                                 fx_trades := fx_trades s @
                                   [\<lparr>buy_time = et, buy_price = ep, sell_time = datetime b,
                                     sell_price = current_price, reason = r\<rparr>]\<rparr>)))))"

text \<open>
  \<^verbatim>\<open>EnhancedStrategy\<close> of \<^verbatim>\<open>Streamlit/live_trading_bot_streamlit.py\<close>. Its \<^verbatim>\<open>__init__\<close>
  sets \<^verbatim>\<open>trailing_stop\<close> to \<^verbatim>\<open>None\<close> (a comparison with it raises a TypeError) and
  leaves \<^verbatim>\<open>entry_price\<close>, \<^verbatim>\<open>entry_time\<close>, \<^verbatim>\<open>stop_loss\<close> and \<^verbatim>\<open>take_profit\<close> unset until
  the first buy (reading one of them raises an AttributeError): an unset attribute is
  \<open>None\<close> here.
\<close>

record enhanced_strategy =
  en_atr_multiplier :: real
  en_max_hold_minutes :: real
  en_trailing_percent :: real
  en_order :: "signal option"
  en_trades :: "round_trip list"
  en_buy_signals :: "(real \<times> real) list"
  en_sell_signals :: "(real \<times> real) list"
  en_trailing_stop :: "real option"
  en_entry_price :: "real option"
  en_entry_time :: "real option"
  en_stop_loss :: "real option"
  en_take_profit :: "real option"

text \<open>\<^verbatim>\<open>__init__\<close>, with the parameters that \<^verbatim>\<open>next\<close> reads.\<close>

definition enhanced_init :: "real \<Rightarrow> real \<Rightarrow> real \<Rightarrow> enhanced_strategy" where
  "enhanced_init am mhm tp =
     \<lparr>en_atr_multiplier = am,
      en_max_hold_minutes = mhm,
      en_trailing_percent = tp,
      en_order = None,
      en_trades = [],
      en_buy_signals = [],
      en_sell_signals = [],
      en_trailing_stop = None,
      en_entry_price = None,
      en_entry_time = None,
      en_stop_loss = None,
      en_take_profit = None\<rparr>"

text \<open>The adjustment of the trailing stop (the \<^verbatim>\<open>if\<close> before the exit conditions):
  \<^verbatim>\<open>and\<close> reads \<^verbatim>\<open>self.trailing_stop\<close> only when the first comparison holds.\<close>

definition adjust_trailing_stop ::
  "real \<Rightarrow> real \<Rightarrow> enhanced_strategy \<Rightarrow> py_error + enhanced_strategy" where
  "adjust_trailing_stop current_price ep s =
     (if current_price > ep then
        (case en_trailing_stop s of
           None \<Rightarrow> Inl TypeError
         | Some tr \<Rightarrow>
             if current_price > tr then
               Inr (s\<lparr>en_trailing_stop :=
                        Some (max tr (current_price * (1 - en_trailing_percent s)))\<rparr>)
             else Inr s)
      else Inr s)"

text \<open>The chain \<^verbatim>\<open>if\<close> / \<^verbatim>\<open>elif\<close> / \<^verbatim>\<open>elif\<close> that sets \<^verbatim>\<open>exit_reason\<close>.\<close>

definition exit_chain :: "real \<Rightarrow> enhanced_strategy \<Rightarrow> py_error + exit_reason option" where
  "exit_chain current_price s =
     (case en_stop_loss s of
        None \<Rightarrow> Inl AttributeError
      | Some sl \<Rightarrow>
          if current_price \<le> sl then Inr (Some Stop_Loss)
          else (case en_take_profit s of
                  None \<Rightarrow> Inl AttributeError
                | Some tp \<Rightarrow>
                    if current_price \<ge> tp then Inr (Some Take_Profit)
                    else (case en_trailing_stop s of
                            None \<Rightarrow> Inl TypeError
                          | Some tr \<Rightarrow>
                              if current_price \<le> tr then Inr (Some Trailing_Stop)
                              else Inr None)))"

definition enhanced_next :: "feed \<Rightarrow> enhanced_strategy \<Rightarrow> py_error + enhanced_strategy" where
  "enhanced_next b s =
     (if \<not> in_position b then
        (if ema_short b > ema_long b \<and> rsi b < 30 then
           (let ep = close b in
            Inr (s\<lparr>en_order := Some BUY,
                   en_entry_price := Some ep,
                   en_entry_time := Some (datetime b),
                   en_stop_loss := Some (ep - atr b * en_atr_multiplier s),
                   en_take_profit := Some (ep + atr b * en_atr_multiplier s),
                   en_trailing_stop := Some (ep * (1 - en_trailing_percent s)),
                   en_buy_signals := en_buy_signals s @ [(datetime b, ep)]\<rparr>))
         else Inr s)
      else
        (let current_price = close b;
             current_time = datetime b
         in case en_entry_price s of
              None \<Rightarrow> Inl AttributeError
            | Some ep \<Rightarrow>
                (case adjust_trailing_stop current_price ep s of
                   Inl err \<Rightarrow> Inl err
                 | Inr s1 \<Rightarrow>
                     (case exit_chain current_price s1 of
                        Inl err \<Rightarrow> Inl err
                      | Inr chained \<Rightarrow>
                          (case en_entry_time s1 of
                             None \<Rightarrow> Inl AttributeError
                           | Some et \<Rightarrow>
                               (let hold_time = (current_time - et) / 60;
                                    exit_reason =
                                      (if hold_time \<ge> en_max_hold_minutes s1
                                         then Some Time_Exit
                                       else chained)
                                in case exit_reason of
                                     None \<Rightarrow> Inr s1
                                   | Some r \<Rightarrow>
                                       Inr (s1\<lparr>en_sell_signals := en_sell_signals s1 @
                                                  [(current_time, current_price)],
                                               en_order := Some SELL,
                                               en_trades := en_trades s1 @
                                                 [\<lparr>buy_time = et, buy_price = ep,
                                                   sell_time = current_time,
                                                   sell_price = current_price,
                                                   reason = r\<rparr>]\<rparr>)))))))"

section \<open>Properties of a ledger\<close>

text \<open>The types of a ledger read BUY, SELL, BUY, SELL, ..., with or without a last BUY.\<close>

fun alternating :: "signal list \<Rightarrow> bool" where
  "alternating [] = True"
| "alternating [x] = (x = BUY)"
| "alternating (x # y # zs) = (x = BUY \<and> y = SELL \<and> alternating zs)"

text \<open>No two neighbours are equal.\<close>

fun no_repeat :: "signal list \<Rightarrow> bool" where
  "no_repeat (x # y # zs) = (x \<noteq> y \<and> no_repeat (y # zs))"
| "no_repeat zs = True"

text \<open>The ledger alternates, and the bot is LONG exactly when the ledger ends in a BUY.\<close>

definition ledger_inv :: "trade_bot \<Rightarrow> bool" where
  "ledger_inv s =
     (alternating (map t_type (trades s)) \<and>
      (position s = Some LONG) = (trades s \<noteq> [] \<and> t_type (last (trades s)) = BUY))"

text \<open>The ledger is a sequence of round trips, a BUY and then a SELL whose profit is its
  price less the price of the BUY, with or without a last BUY.\<close>

fun round_trips :: "trade list \<Rightarrow> bool" where
  "round_trips [] = True"
| "round_trips [b] = (t_type b = BUY)"
| "round_trips (b # x # ts) =
     (t_type b = BUY \<and> t_type x = SELL \<and> t_profit x = Some (t_price x - t_price b) \<and>
      round_trips ts)"

text \<open>The markers that a ledger calls for: the time and the price of each of its trades of
  one type, in the order of the ledger.\<close>

definition markers :: "signal \<Rightarrow> trade list \<Rightarrow> (real \<times> real) list" where
  "markers ty ts = map (\<lambda>t. (t_timestamp t, t_price t)) (filter (\<lambda>t. t_type t = ty) ts)"

text \<open>The invariant from which the properties of the ledger of \<^verbatim>\<open>bot/trade.py\<close> follow.\<close>

definition bot_inv :: "trade_bot \<Rightarrow> bool" where
  "bot_inv s =
     (round_trips (trades s) \<and>
      (position s = Some LONG) = odd (length (trades s)) \<and>
      (position s = Some LONG \<longrightarrow>
         entry_price s = t_price (last (trades s)) \<and>
         entry_time s = Some (t_timestamp (last (trades s)))))"

text \<open>The ledger of the second bot continues that of the first, and if it is the same ledger
  then the entry price and the entry time are the same too.\<close>

definition ledger_extends :: "trade_bot \<Rightarrow> trade_bot \<Rightarrow> bool" where
  "ledger_extends s s' =
     (length (trades s) \<le> length (trades s') \<and>
      take (length (trades s)) (trades s') = trades s \<and>
      (trades s' = trades s \<longrightarrow>
         entry_price s' = entry_price s \<and> entry_time s' = entry_time s))"

text \<open>The two lists of markers are the ones that the ledger calls for.\<close>

definition signals_follow_ledger :: "'a streamlit_bot_scheme \<Rightarrow> bool" where
  "signals_follow_ledger s =
     (buy_signals s = markers BUY (trades s) \<and> sell_signals s = markers SELL (trades s))"

section \<open>Lemmas on ledgers\<close>

lemma alternating_snoc_BUY:
  "alternating ts \<Longrightarrow> even (length ts) \<Longrightarrow> alternating (ts @ [BUY])"
  by (induction ts rule: alternating.induct) auto

lemma alternating_snoc_SELL:
  "alternating ts \<Longrightarrow> odd (length ts) \<Longrightarrow> alternating (ts @ [SELL])"
  by (induction ts rule: alternating.induct) auto

lemma alternating_last:
  "alternating ts \<Longrightarrow> ts \<noteq> [] \<Longrightarrow> (last ts = BUY) = odd (length ts)"
  by (induction ts rule: alternating.induct) auto

lemma alternating_hd: "alternating ts \<Longrightarrow> ts \<noteq> [] \<Longrightarrow> hd ts = BUY"
  by (induction ts rule: alternating.induct) auto

lemma alternating_no_repeat: "alternating ts \<Longrightarrow> no_repeat ts"
proof (induction ts rule: alternating.induct)
  case (3 x y zs)
  then show ?case using alternating_hd [of zs] by (cases zs) auto
qed auto

lemma round_trips_snoc_BUY:
  "round_trips ts \<Longrightarrow> even (length ts) \<Longrightarrow> t_type b = BUY \<Longrightarrow> round_trips (ts @ [b])"
  by (induction ts rule: round_trips.induct) auto

lemma round_trips_snoc_SELL:
  "round_trips ts \<Longrightarrow> odd (length ts) \<Longrightarrow> t_type x = SELL \<Longrightarrow>
   t_profit x = Some (t_price x - t_price (last ts)) \<Longrightarrow> round_trips (ts @ [x])"
proof (induction ts rule: round_trips.induct)
  case (3 b y ts)
  then show ?case by (cases "ts = []") auto
qed auto

lemma round_trips_alternating: "round_trips ts \<Longrightarrow> alternating (map t_type ts)"
  by (induction ts rule: round_trips.induct) auto

section \<open>The invariant of \<^verbatim>\<open>bot/trade.py\<close>\<close>

lemma bot_inv_init: "bot_inv (init symb slp tpp mhm iv)"
  by (simp add: bot_inv_def init_def)

lemma bot_inv_execute_trade:
  "bot_inv s \<Longrightarrow> execute_trade sg p t s = Inr s' \<Longrightarrow> bot_inv s'"
  by (auto simp: bot_inv_def execute_trade_def Let_def round_trips_snoc_BUY
      round_trips_snoc_SELL split: if_splits option.splits)

lemma bot_inv_get_live_data: "bot_inv (get_live_data f s) = bot_inv s"
  by (cases f) (simp_all add: bot_inv_def get_live_data_def)

lemma bot_inv_run_iteration: "bot_inv s \<Longrightarrow> bot_inv (run_iteration f s)"
  by (auto simp: run_iteration_def Let_def bot_inv_get_live_data
      split: sum.splits dest: bot_inv_execute_trade[rotated])

lemma bot_inv_stop: "bot_inv s \<Longrightarrow> bot_inv (stop n1 n2 s)"
  by (auto simp: bot_inv_def stop_def Let_def round_trips_snoc_SELL)

lemma bot_inv_run_loop: "bot_inv s \<Longrightarrow> bot_inv (run_loop fs s)"
  by (induction fs arbitrary: s) (auto simp: bot_inv_run_iteration)

lemma bot_inv_step: "bot_inv s \<Longrightarrow> bot_inv (step e s)"
proof (cases e)
  case (Execute sg p t)
  assume "bot_inv s"
  then show ?thesis using Execute
    by (auto split: sum.splits dest: bot_inv_execute_trade)
next
  case (Run fs)
  assume "bot_inv s"
  then have "bot_inv (s\<lparr>is_running := True\<rparr>)" by (simp add: bot_inv_def)
  then show ?thesis using Run by (simp add: run_def bot_inv_run_loop)
qed (simp_all add: bot_inv_run_iteration bot_inv_stop)

lemma bot_inv_steps: "bot_inv s \<Longrightarrow> bot_inv (steps es s)"
  by (induction es arbitrary: s) (auto simp: bot_inv_step)

section \<open>The ledger alternates\<close>

lemma ledger_inv_parity:
  "ledger_inv s =
     (alternating (map t_type (trades s)) \<and> (position s = Some LONG) = odd (length (trades s)))"
proof (cases "trades s = []")
  case True
  then show ?thesis by (simp add: ledger_inv_def)
next
  case False
  then show ?thesis
    using alternating_last [of "map t_type (trades s)"]
    by (auto simp: ledger_inv_def last_map)
qed

lemma ledger_inv_execute_trade:
  "ledger_inv s \<Longrightarrow> execute_trade sg p t s = Inr s' \<Longrightarrow> ledger_inv s'"
  by (auto simp: ledger_inv_parity execute_trade_def Let_def alternating_snoc_BUY
      alternating_snoc_SELL split: if_splits option.splits)

lemma ledger_inv_get_live_data: "ledger_inv (get_live_data f s) = ledger_inv s"
  by (cases f) (simp_all add: ledger_inv_def get_live_data_def)

lemma ledger_inv_run_iteration: "ledger_inv s \<Longrightarrow> ledger_inv (run_iteration f s)"
  by (auto simp: run_iteration_def Let_def ledger_inv_get_live_data
      split: sum.splits dest: ledger_inv_execute_trade[rotated])

lemma ledger_inv_stop: "ledger_inv s \<Longrightarrow> ledger_inv (stop n1 n2 s)"
  by (auto simp: ledger_inv_parity stop_def Let_def alternating_snoc_SELL)

lemma ledger_inv_run_loop: "ledger_inv s \<Longrightarrow> ledger_inv (run_loop fs s)"
  by (induction fs arbitrary: s) (auto simp: ledger_inv_run_iteration)

lemma ledger_inv_step: "ledger_inv s \<Longrightarrow> ledger_inv (step e s)"
proof (cases e)
  case (Execute sg p t)
  assume "ledger_inv s"
  then show ?thesis using Execute
    by (auto split: sum.splits dest: ledger_inv_execute_trade)
next
  case (Run fs)
  assume "ledger_inv s"
  then have "ledger_inv (s\<lparr>is_running := True\<rparr>)" by (simp add: ledger_inv_def)
  then show ?thesis using Run by (simp add: run_def ledger_inv_run_loop)
qed (simp_all add: ledger_inv_run_iteration ledger_inv_stop)

lemma ledger_inv_steps: "ledger_inv s \<Longrightarrow> ledger_inv (steps es s)"
  by (induction es arbitrary: s) (auto simp: ledger_inv_step)

lemmas bot_defs = init_def run_def run_iteration_def get_live_data_def
  calculate_signals_def execute_trade_def stop_def Let_def

text \<open>
  C4. From a new bot, whatever calls of \<^verbatim>\<open>execute_trade\<close>, \<^verbatim>\<open>run\<close> and \<^verbatim>\<open>stop\<close> come,
  the ledger reads BUY, SELL, BUY, SELL, ... with at most one BUY left unmatched at its end,
  no two neighbours have the same type, and the bot is LONG exactly when the ledger ends in
  a BUY; the new bot has this property and each single step keeps it.
\<close>

theorem ledger_alternates:
  "ledger_inv (init symb slp tpp mhm iv) \<and>
   (ledger_inv s \<longrightarrow> ledger_inv (step e s)) \<and>
   ledger_inv (steps es (init symb slp tpp mhm iv)) \<and>
   no_repeat (map t_type (trades (steps es (init symb slp tpp mhm iv))))"
proof -
  have i: "ledger_inv (init symb slp tpp mhm iv)"
    by (simp add: ledger_inv_def init_def)
  then have r: "ledger_inv (steps es (init symb slp tpp mhm iv))"
    by (rule ledger_inv_steps)
  then have "no_repeat (map t_type (trades (steps es (init symb slp tpp mhm iv))))"
    by (simp add: ledger_inv_def alternating_no_repeat)
  with i r show ?thesis by (simp add: ledger_inv_step)
qed

theorem ledger_alternates_witness:
  "ledger_inv (step (Iteration (Fetched [(0, 100)])) (init ''RELIANCE.NS'' 0.1 0.2 5 ''1m'')) \<and>
   ledger_inv (step (Stop 7 8)
     (step (Iteration (Fetched [(0, 100)])) (init ''RELIANCE.NS'' 0.1 0.2 5 ''1m''))) \<and>
   map t_type (trades (steps
     [Run [Fetched [(0, 100)], Fetched [(0, 100), (60, 99.8)], Fetched [(0, 100), (60, 99.8)]],
      Stop 200 201,
      Stop 300 301] (init ''RELIANCE.NS'' 0.1 0.2 5 ''1m''))) = [BUY, SELL, BUY, SELL] \<and>
   position (steps
     [Run [Fetched [(0, 100)], Fetched [(0, 100), (60, 99.8)], Fetched [(0, 100), (60, 99.8)]]]
     (init ''RELIANCE.NS'' 0.1 0.2 5 ''1m'')) = Some LONG"
  using ledger_alternates [of "''RELIANCE.NS''" "0.1" "0.2" 5 "''1m''"
      "step (Iteration (Fetched [(0, 100)])) (init ''RELIANCE.NS'' 0.1 0.2 5 ''1m'')"
      "Stop 7 8"
      "[Run [Fetched [(0, 100)], Fetched [(0, 100), (60, 99.8)], Fetched [(0, 100), (60, 99.8)]],
        Stop 200 201, Stop 300 301]"]
  by (simp add: ledger_inv_def bot_defs)

section \<open>Profit and entry price\<close>

lemma ledger_extends_refl: "ledger_extends s s"
  by (simp add: ledger_extends_def)

lemma ledger_extends_trans:
  assumes "ledger_extends s s'" and "ledger_extends s' s''"
  shows "ledger_extends s s''"
proof -
  let ?n = "length (trades s)" and ?m = "length (trades s')"
  from assms have le: "?n \<le> ?m" "?m \<le> length (trades s'')"
    and tk: "take ?n (trades s') = trades s" "take ?m (trades s'') = trades s'"
    by (simp_all add: ledger_extends_def)
  have "take ?n (trades s'') = take ?n (take ?m (trades s''))"
    using le by (simp add: min_def)
  then have t: "take ?n (trades s'') = trades s" using tk by simp
  have "entry_price s'' = entry_price s \<and> entry_time s'' = entry_time s"
    if eq: "trades s'' = trades s"
  proof -
    from eq le have "?m = ?n" by simp
    with tk eq have "trades s' = trades s" "trades s'' = trades s'" by simp_all
    with assms show ?thesis by (simp add: ledger_extends_def)
  qed
  with le t show ?thesis by (simp add: ledger_extends_def)
qed

lemma ledger_extends_execute_trade:
  "execute_trade sg p t s = Inr s' \<Longrightarrow> ledger_extends s s'"
  by (auto simp: ledger_extends_def execute_trade_def Let_def split: if_splits option.splits)

lemma ledger_extends_get_live_data: "ledger_extends s (get_live_data f s)"
  by (cases f) (simp_all add: ledger_extends_def get_live_data_def)

lemma ledger_extends_run_iteration: "ledger_extends s (run_iteration f s)"
proof -
  let ?s1 = "get_live_data f s"
  have "ledger_extends ?s1 (run_iteration f s)"
    by (auto simp: run_iteration_def Let_def ledger_extends_refl
        split: sum.splits intro: ledger_extends_execute_trade)
  with ledger_extends_get_live_data show ?thesis by (rule ledger_extends_trans)
qed

lemma ledger_extends_stop: "ledger_extends s (stop n1 n2 s)"
  by (simp add: ledger_extends_def stop_def Let_def)

lemma ledger_extends_run_loop: "ledger_extends s (run_loop fs s)"
proof (induction fs arbitrary: s)
  case Nil
  show ?case by (simp add: ledger_extends_refl)
next
  case (Cons f fs)
  show ?case
    using ledger_extends_trans [OF ledger_extends_run_iteration Cons.IH]
    by (simp add: ledger_extends_refl)
qed

lemma ledger_extends_step: "ledger_extends s (step e s)"
proof (cases e)
  case (Execute sg p t)
  then show ?thesis
    by (auto simp: ledger_extends_refl split: sum.splits intro: ledger_extends_execute_trade)
next
  case (Run fs)
  have "ledger_extends s (s\<lparr>is_running := True\<rparr>)" by (simp add: ledger_extends_def)
  then show ?thesis
    using Run ledger_extends_run_loop [of "s\<lparr>is_running := True\<rparr>" fs]
    by (auto simp: run_def intro: ledger_extends_trans)
qed (simp_all add: ledger_extends_run_iteration ledger_extends_stop)

lemma ledger_extends_steps: "ledger_extends s (steps es s)"
proof (induction es arbitrary: s)
  case Nil
  show ?case by (simp add: ledger_extends_refl)
next
  case (Cons e es)
  show ?case
    using ledger_extends_trans [OF ledger_extends_step Cons.IH] by simp
qed

lemma run_iteration_sells:
  assumes "position s = Some LONG" and "trades (run_iteration f s) \<noteq> trades s"
  shows "butlast (trades (run_iteration f s)) = trades s \<and>
         t_type (last (trades (run_iteration f s))) = SELL \<and>
         t_price (last (trades (run_iteration f s))) = snd (last (data (run_iteration f s))) \<and>
         t_profit (last (trades (run_iteration f s))) =
           Some (snd (last (data (run_iteration f s))) - entry_price s)"
  using assms
  by (cases f)
     (auto simp: run_iteration_def get_live_data_def calculate_signals_def execute_trade_def
       Let_def split: if_splits option.splits)

text \<open>
  C7. In the ledger of a bot of \<^verbatim>\<open>bot/trade.py\<close> every SELL follows a BUY and its profit
  is its own price less the price of that BUY; while the bot is LONG its entry price and entry
  time are the price and the time of the BUY that ends the ledger; as long as no trade is
  appended the entry price and the entry time stay as they are; and a pass of the loop that
  appends a trade while LONG appends one SELL, at the close of the last bar fetched, with
  that close less the entry price as its profit.
\<close>

theorem sell_profit_fixed_entry:
  "round_trips (trades (steps es (init symb slp tpp mhm iv))) \<and>
   (position (steps es (init symb slp tpp mhm iv)) = Some LONG \<longrightarrow>
      entry_price (steps es (init symb slp tpp mhm iv)) =
        t_price (last (trades (steps es (init symb slp tpp mhm iv)))) \<and>
      entry_time (steps es (init symb slp tpp mhm iv)) =
        Some (t_timestamp (last (trades (steps es (init symb slp tpp mhm iv)))))) \<and>
   ledger_extends s (steps es' s) \<and>
   (position s = Some LONG \<and> trades (run_iteration f s) \<noteq> trades s \<longrightarrow>
      butlast (trades (run_iteration f s)) = trades s \<and>
      t_type (last (trades (run_iteration f s))) = SELL \<and>
      t_price (last (trades (run_iteration f s))) = snd (last (data (run_iteration f s))) \<and>
      t_profit (last (trades (run_iteration f s))) =
        Some (snd (last (data (run_iteration f s))) - entry_price s))"
proof -
  have "bot_inv (steps es (init symb slp tpp mhm iv))"
    by (rule bot_inv_steps [OF bot_inv_init])
  then show ?thesis
    using run_iteration_sells [of s f]
    by (simp add: bot_inv_def ledger_extends_steps)
qed

theorem sell_profit_fixed_entry_witness:
  "position (steps [Iteration (Fetched [(0, 100)]), Iteration (Fetched [(0, 100), (60, 100.1)])]
      (init ''RELIANCE.NS'' 0.1 0.2 5 ''1m'')) = Some LONG \<and>
   entry_price (steps [Iteration (Fetched [(0, 100)]), Iteration (Fetched [(0, 100), (60, 100.1)])]
      (init ''RELIANCE.NS'' 0.1 0.2 5 ''1m'')) = 100 \<and>
   position (steps [Iteration (Fetched [(0, 100)])] (init ''RELIANCE.NS'' 0.1 0.2 5 ''1m''))
     = Some LONG \<and>
   map t_profit (trades (run_iteration (Fetched [(0, 100), (60, 99.8)])
     (steps [Iteration (Fetched [(0, 100)])] (init ''RELIANCE.NS'' 0.1 0.2 5 ''1m''))))
     = [None, Some (- 0.2)]"
  using sell_profit_fixed_entry [of
      "[Iteration (Fetched [(0, 100)]), Iteration (Fetched [(0, 100), (60, 100.1)])]"
      "''RELIANCE.NS''" "0.1" "0.2" 5 "''1m''"
      "steps [Iteration (Fetched [(0, 100)])] (init ''RELIANCE.NS'' 0.1 0.2 5 ''1m'')"
      "[Iteration (Fetched [(0, 100), (60, 100.1)])]"
      "Fetched [(0, 100), (60, 99.8)]"]
  by (simp add: bot_defs)

section \<open>Markers and ledger\<close>

lemma signals_follow_ledger_init: "signals_follow_ledger (init symb slp tpp mhm iv)"
  by (simp add: signals_follow_ledger_def markers_def init_def)

lemma signals_follow_ledger_execute_trade:
  "signals_follow_ledger s \<Longrightarrow> execute_trade sg p t s = Inr s' \<Longrightarrow> signals_follow_ledger s'"
  by (auto simp: signals_follow_ledger_def markers_def execute_trade_def Let_def
      split: if_splits option.splits)

lemma signals_follow_ledger_run_iteration:
  "signals_follow_ledger s \<Longrightarrow> signals_follow_ledger (run_iteration f s)"
  by (cases f)
     (auto simp: run_iteration_def get_live_data_def Let_def signals_follow_ledger_def
       split: sum.splits dest!: signals_follow_ledger_execute_trade[rotated])

lemma signals_follow_ledger_execute_trade_st:
  "signals_follow_ledger s \<Longrightarrow> signals_follow_ledger (execute_trade_st sg p t s)"
  by (simp add: signals_follow_ledger_def markers_def execute_trade_st_def Let_def)

lemma signals_follow_ledger_stop_one_reading:
  "signals_follow_ledger s \<Longrightarrow> signals_follow_ledger (stop n n s)"
  by (simp add: signals_follow_ledger_def markers_def stop_def Let_def)

lemma sell_prices_follow_ledger_stop:
  "map snd (sell_signals s) = map snd (markers SELL (trades s)) \<Longrightarrow>
   map snd (sell_signals (stop n1 n2 s)) = map snd (markers SELL (trades (stop n1 n2 s)))"
  by (simp add: markers_def stop_def Let_def)

text \<open>
  C10. The bot of \<^verbatim>\<open>bot/trade.py\<close> buys at the bar (0, 100) and is then stopped;
  \<^verbatim>\<open>stop\<close> reads the clock at 10 for the sell marker and at 11 for the trade. The markers
  and the ledger agree before the stop; after it the sell marker carries the time 10 and the
  SELL of the ledger the time 11.
\<close>

theorem stop_marker_time_differs:
  "signals_follow_ledger (run [Fetched [(0, 100)]] (init ''RELIANCE.NS'' 0.1 0.2 5 ''1m'')) \<and>
   sell_signals (stop 10 11 (run [Fetched [(0, 100)]] (init ''RELIANCE.NS'' 0.1 0.2 5 ''1m'')))
     = [(10, 100)] \<and>
   markers SELL
     (trades (stop 10 11 (run [Fetched [(0, 100)]] (init ''RELIANCE.NS'' 0.1 0.2 5 ''1m''))))
     = [(11, 100)] \<and>
   \<not> signals_follow_ledger
     (stop 10 11 (run [Fetched [(0, 100)]] (init ''RELIANCE.NS'' 0.1 0.2 5 ''1m'')))"
  by (simp add: signals_follow_ledger_def markers_def bot_defs)

lemmas st_defs = init_st_def run_st_def run_iteration_st_def get_live_data_st_def
  calculate_signals_st_def execute_trade_st_def stop_st_def

section \<open>Stopping\<close>

text \<open>What \<^verbatim>\<open>stop\<close> does in each of the two files.\<close>

lemma stop_effect:
  "(position s = Some LONG \<and> data s \<noteq> [] \<longrightarrow>
      stop n1 n2 s =
        s\<lparr>is_running := False,
          position := None,
          sell_signals := sell_signals s @ [(n1, snd (last (data s)))],
          trades := trades s @
            [\<lparr>t_type = SELL, t_price = snd (last (data s)), t_timestamp = n2,
              t_profit = Some (snd (last (data s)) - entry_price s),
              t_reason = Some Manual_Stop\<rparr>]\<rparr>) \<and>
   (position s = None \<or> data s = [] \<longrightarrow> stop n1 n2 s = s\<lparr>is_running := False\<rparr>) \<and>
   stop_st s' = s'\<lparr>is_running := False\<rparr>"
  by (auto simp: stop_def stop_st_def Let_def)

text \<open>
  C6. The bot of \<^verbatim>\<open>bot/trade.py\<close> buys at the bar (0, 100); the next fetch returns an
  empty frame; the bot is then stopped. It is LONG before the stop and LONG after it, and its
  ledger is the single BUY before and after: no SELL with the reason Manual Stop is appended.
  The bot of \<^verbatim>\<open>Streamlit/bot.py\<close> buys at the bar (0, 100) and is stopped while that
  frame is still its data: it too is LONG after the stop, with the single BUY as its ledger
  and no sell marker.
\<close>

theorem stop_leaves_position_open:
  "position (run [Fetched [(0, 100)], Fetched []] (init ''RELIANCE.NS'' 0.1 0.2 5 ''1m''))
     = Some LONG \<and>
   data (run [Fetched [(0, 100)], Fetched []] (init ''RELIANCE.NS'' 0.1 0.2 5 ''1m'')) = [] \<and>
   position (stop 10 11
     (run [Fetched [(0, 100)], Fetched []] (init ''RELIANCE.NS'' 0.1 0.2 5 ''1m'')))
     = Some LONG \<and>
   map t_type (trades (stop 10 11
     (run [Fetched [(0, 100)], Fetched []] (init ''RELIANCE.NS'' 0.1 0.2 5 ''1m''))))
     = [BUY] \<and>
   sell_signals (stop 10 11
     (run [Fetched [(0, 100)], Fetched []] (init ''RELIANCE.NS'' 0.1 0.2 5 ''1m''))) = [] \<and>
   \<not> isl (run_st [Fetched [(0, 100)]] (init_st ''RELIANCE.NS'' 0.1 0.2 5 ''1m'')) \<and>
   position (projr (run_st [Fetched [(0, 100)]] (init_st ''RELIANCE.NS'' 0.1 0.2 5 ''1m'')))
     = Some LONG \<and>
   data (projr (run_st [Fetched [(0, 100)]] (init_st ''RELIANCE.NS'' 0.1 0.2 5 ''1m'')))
     = [(0, 100)] \<and>
   position (stop_st
     (projr (run_st [Fetched [(0, 100)]] (init_st ''RELIANCE.NS'' 0.1 0.2 5 ''1m''))))
     = Some LONG \<and>
   map t_type (trades (stop_st
     (projr (run_st [Fetched [(0, 100)]] (init_st ''RELIANCE.NS'' 0.1 0.2 5 ''1m'')))))
     = [BUY] \<and>
   sell_signals (stop_st
     (projr (run_st [Fetched [(0, 100)]] (init_st ''RELIANCE.NS'' 0.1 0.2 5 ''1m'')))) = []"
  by (simp add: bot_defs st_defs)

section \<open>Construction\<close>

text \<open>
  C8, as the claim states it. Both constructors are called with a stop-loss of -1 percent, a
  take-profit of 0 percent and a maximal hold of -5 minutes. Each returns a bot that holds
  these values, and the bot of \<^verbatim>\<open>bot/trade.py\<close> then runs and buys at the first bar.
\<close>

theorem init_nonpositive_counterexample:
  "stop_loss_percent (init ''RELIANCE.NS'' (- 1) 0 (- 5) ''1m'') = - 1 / 100 \<and>
   take_profit_percent (init ''RELIANCE.NS'' (- 1) 0 (- 5) ''1m'') = 0 \<and>
   max_hold_minutes (init ''RELIANCE.NS'' (- 1) 0 (- 5) ''1m'') = - 5 \<and>
   is_running (run [Fetched [(0, 100)]] (init ''RELIANCE.NS'' (- 1) 0 (- 5) ''1m'')) \<and>
   position (run [Fetched [(0, 100)]] (init ''RELIANCE.NS'' (- 1) 0 (- 5) ''1m''))
     = Some LONG \<and>
   stop_loss_percent (init_st ''RELIANCE.NS'' (- 1) 0 (- 5) ''1m'') = - 1 / 100 \<and>
   max_hold_minutes (init_st ''RELIANCE.NS'' (- 1) 0 (- 5) ''1m'') = - 5"
  by (simp add: bot_defs init_st_def)

text \<open>
  C8, amended. Neither constructor checks its arguments: for every stop-loss percentage,
  take-profit percentage and maximal hold, positive or not, it returns a bot that is FLAT and
  not running, with an empty ledger, and that holds the two percentages divided by 100 and
  the maximal hold as given; run on a frame that is not empty, that bot buys.
\<close>

theorem init_never_rejects:
  "stop_loss_percent (init symb slp tpp mhm iv) = slp / 100 \<and>
   take_profit_percent (init symb slp tpp mhm iv) = tpp / 100 \<and>
   max_hold_minutes (init symb slp tpp mhm iv) = mhm \<and>
   position (init symb slp tpp mhm iv) = None \<and>
   trades (init symb slp tpp mhm iv) = [] \<and>
   \<not> is_running (init symb slp tpp mhm iv) \<and>
   stop_loss_percent (init_st symb slp tpp mhm iv) = slp / 100 \<and>
   take_profit_percent (init_st symb slp tpp mhm iv) = tpp / 100 \<and>
   max_hold_minutes (init_st symb slp tpp mhm iv) = mhm \<and>
   position (init_st symb slp tpp mhm iv) = None \<and>
   trades (init_st symb slp tpp mhm iv) = [] \<and>
   \<not> is_running (init_st symb slp tpp mhm iv) \<and>
   (d \<noteq> [] \<longrightarrow>
      position (run [Fetched d] (init symb slp tpp mhm iv)) = Some LONG \<and>
      map t_type (trades (run [Fetched d] (init symb slp tpp mhm iv))) = [BUY])"
  by (simp add: bot_defs init_st_def)

theorem init_never_rejects_witness:
  "[(0, 100)] \<noteq> ([] :: frame) \<and>
   stop_loss_percent (init ''RELIANCE.NS'' (- 1) 0 (- 5) ''15m'') = - 1 / 100 \<and>
   position (run [Fetched [(0, 100)]] (init ''RELIANCE.NS'' (- 1) 0 (- 5) ''15m''))
     = Some LONG"
  using init_never_rejects [of "''RELIANCE.NS''" "- 1" 0 "- 5" "''15m''" "[(0, 100)]"]
  by simp

section \<open>Bars fetched again\<close>

text \<open>
  C9, as the claim states it. With the default configuration the bot of \<^verbatim>\<open>bot/trade.py\<close>
  buys at the bar (0, 100), sells at the bar (60, 99.8), is given that same bar again and
  buys at it, sells at the bar (120, 99.5), and is then given the earlier bar (60, 99.8) and
  buys at it once more: the third and the fifth pass each change the position and append a
  trade and a buy marker. The bot of \<^verbatim>\<open>Streamlit/bot.py\<close> does the same on the first
  three fetches.
\<close>

theorem refetched_bar_counterexample:
  "map t_type (trades (run
     [Fetched [(0, 100)], Fetched [(0, 100), (60, 99.8)], Fetched [(0, 100), (60, 99.8)],
      Fetched [(0, 100), (60, 99.8), (120, 99.5)], Fetched [(0, 100), (60, 99.8)]]
     (init ''RELIANCE.NS'' 0.1 0.2 5 ''1m''))) = [BUY, SELL, BUY, SELL, BUY] \<and>
   map t_timestamp (trades (run
     [Fetched [(0, 100)], Fetched [(0, 100), (60, 99.8)], Fetched [(0, 100), (60, 99.8)],
      Fetched [(0, 100), (60, 99.8), (120, 99.5)], Fetched [(0, 100), (60, 99.8)]]
     (init ''RELIANCE.NS'' 0.1 0.2 5 ''1m''))) = [0, 60, 60, 120, 60] \<and>
   buy_signals (run
     [Fetched [(0, 100)], Fetched [(0, 100), (60, 99.8)], Fetched [(0, 100), (60, 99.8)],
      Fetched [(0, 100), (60, 99.8), (120, 99.5)], Fetched [(0, 100), (60, 99.8)]]
     (init ''RELIANCE.NS'' 0.1 0.2 5 ''1m'')) = [(0, 100), (60, 99.8), (60, 99.8)] \<and>
   \<not> isl (run_st
     [Fetched [(0, 100)], Fetched [(0, 100), (60, 99.8)], Fetched [(0, 100), (60, 99.8)]]
     (init_st ''RELIANCE.NS'' 0.1 0.2 5 ''1m'')) \<and>
   map t_timestamp (trades (projr (run_st
     [Fetched [(0, 100)], Fetched [(0, 100), (60, 99.8)], Fetched [(0, 100), (60, 99.8)]]
     (init_st ''RELIANCE.NS'' 0.1 0.2 5 ''1m'')))) = [0, 60, 60]"
  by (simp add: bot_defs st_defs)

text \<open>
  C9, amended. The loop keeps no record of the last bar it has processed and compares the
  timestamp of a bar with that of no other bar. In both files a pass whose fetch returns a
  frame that is not empty decides on and applies the last bar (t, p) of that frame, whatever
  t is: a FLAT bot buys at it; a LONG bot sells at it if p is at or under the stop-loss
  threshold, or at or over the take-profit threshold, or if the time from the entry to t has
  reached the maximal hold, and otherwise changes \<^verbatim>\<open>self.data\<close> only. A LONG bot without
  an entry time, which no buy produces, raises at the hold time. A pass whose fetch raises
  does what a pass does that fetches the frame of the pass before once more. A pass whose fetch
  returns an empty frame changes \<^verbatim>\<open>self.data\<close> only.
\<close>

theorem run_iteration_processes_last_bar:
  "(d \<noteq> [] \<and> last d = (t, p) \<and> position s = None \<longrightarrow>
      run_iteration (Fetched d) s =
        s\<lparr>data := d,
          position := Some LONG,
          entry_price := p,
          entry_time := Some t,
          buy_signals := buy_signals s @ [(t, p)],
          trades := trades s @
            [\<lparr>t_type = BUY, t_price = p, t_timestamp = t,
              t_profit = None, t_reason = None\<rparr>]\<rparr>) \<and>
   (d \<noteq> [] \<and> last d = (t, p) \<and> position s = Some LONG \<and> entry_time s = Some e \<longrightarrow>
      run_iteration (Fetched d) s =
        (if p \<le> entry_price s * (1 - stop_loss_percent s)
            \<or> p \<ge> entry_price s * (1 + take_profit_percent s)
            \<or> (t - e) / 60 \<ge> max_hold_minutes s * interval_minutes s
         then s\<lparr>data := d,
                position := None,
                sell_signals := sell_signals s @ [(t, p)],
                trades := trades s @
                  [\<lparr>t_type = SELL, t_price = p, t_timestamp = t,
                    t_profit = Some (p - entry_price s),
                    t_reason = Some
                      (if p \<ge> entry_price s * (1 + take_profit_percent s) then Take_Profit
                       else if p \<le> entry_price s * (1 - stop_loss_percent s) then Stop_Loss
                       else Time_Exit)\<rparr>]\<rparr>
         else s\<lparr>data := d\<rparr>)) \<and>
   (position s = Some LONG \<and> entry_time s = None \<longrightarrow>
      run_iteration (Fetched d) s = s\<lparr>data := d\<rparr>) \<and>
   run_iteration Fetch_error s = run_iteration (Fetched (data s)) s \<and>
   run_iteration (Fetched []) s = s\<lparr>data := []\<rparr> \<and>
   (d \<noteq> [] \<and> last d = (t, p) \<and> position s' = None \<longrightarrow>
      run_iteration_st (Fetched d) s' =
        Inr (s'\<lparr>data := d,
               position := Some LONG,
               entry_price := p,
               entry_time := Some t,
               buy_signals := buy_signals s' @ [(t, p)],
               trades := trades s' @
                 [\<lparr>t_type = BUY, t_price = p, t_timestamp = t,
                   t_profit = None, t_reason = None\<rparr>]\<rparr>)) \<and>
   (d \<noteq> [] \<and> last d = (t, p) \<and> position s' = Some LONG \<and> entry_time s' = Some e \<longrightarrow>
      run_iteration_st (Fetched d) s' =
        Inr (if p \<le> entry_price s' * (1 - stop_loss_percent s')
                \<or> p \<ge> entry_price s' * (1 + take_profit_percent s')
                \<or> (t - e) / 60 \<ge> max_hold_minutes s'
             then s'\<lparr>data := d,
                    position := None,
                    sell_signals := sell_signals s' @ [(t, p)],
                    trades := trades s' @
                      [\<lparr>t_type = SELL, t_price = p, t_timestamp = t,
                        t_profit = Some (p - entry_price s'),
                        t_reason = Some
                          (if p \<ge> entry_price s' * (1 + take_profit_percent s')
                             then Take_Profit
                           else Stop_Loss)\<rparr>]\<rparr>
             else s'\<lparr>data := d\<rparr>)) \<and>
   (d \<noteq> [] \<and> last d = (t, p) \<and> position s' = Some LONG \<and> entry_time s' = None \<longrightarrow>
      run_iteration_st (Fetched d) s' =
        (if p \<le> entry_price s' * (1 - stop_loss_percent s')
            \<or> p \<ge> entry_price s' * (1 + take_profit_percent s')
         then Inr (s'\<lparr>data := d,
                     position := None,
                     sell_signals := sell_signals s' @ [(t, p)],
                     trades := trades s' @
                       [\<lparr>t_type = SELL, t_price = p, t_timestamp = t,
                         t_profit = Some (p - entry_price s'),
                         t_reason = Some
                           (if p \<ge> entry_price s' * (1 + take_profit_percent s')
                              then Take_Profit
                            else Stop_Loss)\<rparr>]\<rparr>)
         else Inl TypeError)) \<and>
   run_iteration_st Fetch_error s' = run_iteration_st (Fetched (data s')) s' \<and>
   run_iteration_st (Fetched []) s' = Inr (s'\<lparr>data := []\<rparr>)"
proof -
  have a: "run_iteration (Fetched d) s = s\<lparr>data := d\<rparr>"
    if "position s = Some LONG" "entry_time s = None"
    using that
    by (simp add: run_iteration_def get_live_data_def calculate_signals_def execute_trade_def
        Let_def)
  have b: "run_iteration Fetch_error s = run_iteration (Fetched (data s)) s"
    by (simp add: run_iteration_def get_live_data_def)
  have c: "run_iteration_st Fetch_error s' = run_iteration_st (Fetched (data s')) s'"
    by (simp add: run_iteration_st_def get_live_data_st_def)
  show ?thesis
    using a b c
    by (auto simp: run_iteration_def get_live_data_def calculate_signals_def execute_trade_def
        run_iteration_st_def get_live_data_st_def calculate_signals_st_def
        execute_trade_st_def Let_def)
qed

theorem run_iteration_processes_last_bar_witness:
  "[(0, 100), (60, 99.8)] \<noteq> ([] :: frame) \<and>
   last [(0, 100), (60, 99.8)] = (60 :: real, 99.8 :: real) \<and>
   position (run [Fetched [(0, 100)], Fetched [(0, 100), (60, 99.8)]]
      (init ''RELIANCE.NS'' 0.1 0.2 5 ''1m'')) = None \<and>
   map t_timestamp (trades (run_iteration (Fetched [(0, 100), (60, 99.8)])
     (run [Fetched [(0, 100)], Fetched [(0, 100), (60, 99.8)]]
        (init ''RELIANCE.NS'' 0.1 0.2 5 ''1m'')))) = [0, 60, 60] \<and>
   map t_timestamp (trades (run_iteration Fetch_error
     (run [Fetched [(0, 100)], Fetched [(0, 100), (60, 99.8)]]
        (init ''RELIANCE.NS'' 0.1 0.2 5 ''1m'')))) = [0, 60, 60] \<and>
   position (run [Fetched [(0, 100)]] (init ''RELIANCE.NS'' 0.1 0.2 5 ''1m'')) = Some LONG \<and>
   entry_time (run [Fetched [(0, 100)]] (init ''RELIANCE.NS'' 0.1 0.2 5 ''1m'')) = Some 0 \<and>
   map t_type (trades (run_iteration (Fetched [(0, 100), (60, 99.8)])
     (run [Fetched [(0, 100)]] (init ''RELIANCE.NS'' 0.1 0.2 5 ''1m'')))) = [BUY, SELL] \<and>
   position ((init ''RELIANCE.NS'' 0.1 0.2 5 ''1m'')\<lparr>position := Some LONG\<rparr>) = Some LONG \<and>
   entry_time ((init ''RELIANCE.NS'' 0.1 0.2 5 ''1m'')\<lparr>position := Some LONG\<rparr>) = None \<and>
   trades (run_iteration (Fetched [(0, 100), (60, 99.8)])
     ((init ''RELIANCE.NS'' 0.1 0.2 5 ''1m'')\<lparr>position := Some LONG\<rparr>)) = [] \<and>
   position (init_st ''RELIANCE.NS'' 0.1 0.2 5 ''1m'') = None \<and>
   \<not> isl (run_iteration_st (Fetched [(0, 100), (60, 99.8)])
     (init_st ''RELIANCE.NS'' 0.1 0.2 5 ''1m'')) \<and>
   \<not> isl (run_st [Fetched [(0, 100)]] (init_st ''RELIANCE.NS'' 0.1 0.2 5 ''1m'')) \<and>
   position (projr (run_st [Fetched [(0, 100)]] (init_st ''RELIANCE.NS'' 0.1 0.2 5 ''1m'')))
     = Some LONG \<and>
   entry_time (projr (run_st [Fetched [(0, 100)]] (init_st ''RELIANCE.NS'' 0.1 0.2 5 ''1m'')))
     = Some 0 \<and>
   map t_type (trades (projr (run_iteration_st (Fetched [(0, 100), (60, 99.8)])
     (projr (run_st [Fetched [(0, 100)]] (init_st ''RELIANCE.NS'' 0.1 0.2 5 ''1m'')))))) =
     [BUY, SELL] \<and>
   position ((init_st ''RELIANCE.NS'' 0.1 0.2 5 ''1m'')
     \<lparr>position := Some LONG, entry_price := 100\<rparr>) = Some LONG \<and>
   entry_time ((init_st ''RELIANCE.NS'' 0.1 0.2 5 ''1m'')
     \<lparr>position := Some LONG, entry_price := 100\<rparr>) = None \<and>
   run_iteration_st (Fetched [(0, 100), (60, 99.8)])
     ((init_st ''RELIANCE.NS'' 0.1 0.2 5 ''1m'')\<lparr>position := Some LONG, entry_price := 100\<rparr>)
     \<noteq> Inl TypeError \<and>
   run_iteration_st (Fetched [(0, 100), (60, 100)])
     ((init_st ''RELIANCE.NS'' 0.1 0.2 5 ''1m'')\<lparr>position := Some LONG, entry_price := 100\<rparr>)
     = Inl TypeError"
  using run_iteration_processes_last_bar [of "[(0, 100), (60, 99.8)]" 60 "99.8"
      "run [Fetched [(0, 100)], Fetched [(0, 100), (60, 99.8)]]
         (init ''RELIANCE.NS'' 0.1 0.2 5 ''1m'')" 0
      "init_st ''RELIANCE.NS'' 0.1 0.2 5 ''1m''"]
    run_iteration_processes_last_bar [of "[(0, 100), (60, 99.8)]" 60 "99.8"
      "run [Fetched [(0, 100)]] (init ''RELIANCE.NS'' 0.1 0.2 5 ''1m'')" 0
      "projr (run_st [Fetched [(0, 100)]] (init_st ''RELIANCE.NS'' 0.1 0.2 5 ''1m''))"]
    run_iteration_processes_last_bar [of "[(0, 100), (60, 99.8)]" 60 "99.8"
      "(init ''RELIANCE.NS'' 0.1 0.2 5 ''1m'')\<lparr>position := Some LONG\<rparr>" 0
      "(init_st ''RELIANCE.NS'' 0.1 0.2 5 ''1m'')\<lparr>position := Some LONG, entry_price := 100\<rparr>"]
  by (simp add: bot_defs st_defs)

section \<open>The reason of a SELL\<close>

text \<open>When the two thresholds do not overlap, a close at or under the stop-loss threshold is
  sold with the reason Stop Loss, in both copies of the bot.\<close>

lemma stop_loss_bar_sells:
  assumes "position s = Some LONG" and "entry_time s = Some e"
    and "entry_price s * (1 - stop_loss_percent s) < entry_price s * (1 + take_profit_percent s)"
    and "p \<le> entry_price s * (1 - stop_loss_percent s)"
  shows "run_iteration (Fetched (d @ [(t, p)])) s =
           s\<lparr>data := d @ [(t, p)],
             position := None,
             sell_signals := sell_signals s @ [(t, p)],
             trades := trades s @
               [\<lparr>t_type = SELL, t_price = p, t_timestamp = t,
                 t_profit = Some (p - entry_price s), t_reason = Some Stop_Loss\<rparr>]\<rparr>"
  using assms
  by (simp add: run_iteration_def get_live_data_def calculate_signals_def execute_trade_def
      Let_def)

lemma stop_loss_bar_sells_st:
  assumes "position s = Some LONG"
    and "entry_price s * (1 - stop_loss_percent s) < entry_price s * (1 + take_profit_percent s)"
    and "p \<le> entry_price s * (1 - stop_loss_percent s)"
  shows "run_iteration_st (Fetched (d @ [(t, p)])) s =
           Inr (s\<lparr>data := d @ [(t, p)],
                  position := None,
                  sell_signals := sell_signals s @ [(t, p)],
                  trades := trades s @
                    [\<lparr>t_type = SELL, t_price = p, t_timestamp = t,
                      t_profit = Some (p - entry_price s), t_reason = Some Stop_Loss\<rparr>]\<rparr>)"
  using assms
  by (simp add: run_iteration_st_def get_live_data_st_def calculate_signals_st_def
      execute_trade_st_def Let_def)

text \<open>In \<^verbatim>\<open>bot/trade.py\<close> a close between the two thresholds is sold, with the reason
  Time Exit, exactly when the hold time has reached \<^verbatim>\<open>max_hold_minutes * interval_minutes\<close>;
  before that the pass changes \<^verbatim>\<open>self.data\<close> only.\<close>

lemma time_exit_at_boundary:
  assumes "position s = Some LONG" and "entry_time s = Some e"
    and "\<not> p \<le> entry_price s * (1 - stop_loss_percent s)"
    and "\<not> p \<ge> entry_price s * (1 + take_profit_percent s)"
  shows "run_iteration (Fetched (d @ [(t, p)])) s =
           (if (t - e) / 60 \<ge> max_hold_minutes s * interval_minutes s then
              s\<lparr>data := d @ [(t, p)],
                position := None,
                sell_signals := sell_signals s @ [(t, p)],
                trades := trades s @
                  [\<lparr>t_type = SELL, t_price = p, t_timestamp = t,
                    t_profit = Some (p - entry_price s), t_reason = Some Time_Exit\<rparr>]\<rparr>
            else s\<lparr>data := d @ [(t, p)]\<rparr>)"
  using assms
  by (simp add: run_iteration_def get_live_data_def calculate_signals_def execute_trade_def
      Let_def)

text \<open>In \<^verbatim>\<open>Streamlit/bot.py\<close> the decision is taken at the same boundary, with
  \<^verbatim>\<open>max_hold_minutes\<close> alone.\<close>

lemma time_exit_decision_st:
  assumes "position s = Some LONG" and "entry_time s = Some e"
    and "\<not> p \<le> entry_price s * (1 - stop_loss_percent s)"
    and "\<not> p \<ge> entry_price s * (1 + take_profit_percent s)"
  shows "calculate_signals_st s p t =
           Inr (if (t - e) / 60 \<ge> max_hold_minutes s then SELL else HOLD)"
  using assms by (simp add: calculate_signals_st_def Let_def)

text \<open>
  C1. Both bots are built with a stop-loss of 0.1 percent and a take-profit of -0.5 percent
  and buy at the bar (0, 100). The close 99.8 of the next bar is under the stop-loss threshold
  99.9, and \<^verbatim>\<open>calculate_signals\<close> answers SELL at its stop-loss test; \<^verbatim>\<open>execute_trade\<close>
  tests the take-profit threshold 99.5 first and records the reason Take Profit. With the
  default configuration the bot of \<^verbatim>\<open>Streamlit/bot.py\<close> buys at (0, 100) and is given the
  bar (360, 100.1), which breaches neither threshold and is sold by the time test; the reason
  recorded is Stop Loss.
\<close>

theorem exit_reason_tested_again:
  "(99.8 :: real) \<le>
     entry_price (run [Fetched [(0, 100)]] (init ''RELIANCE.NS'' 0.1 (- 0.5) 5 ''1m'')) *
     (1 - stop_loss_percent (run [Fetched [(0, 100)]] (init ''RELIANCE.NS'' 0.1 (- 0.5) 5 ''1m'')))
   \<and>
   calculate_signals (run [Fetched [(0, 100)]] (init ''RELIANCE.NS'' 0.1 (- 0.5) 5 ''1m''))
     99.8 60 = Inr SELL \<and>
   map t_reason (trades (run [Fetched [(0, 100)], Fetched [(0, 100), (60, 99.8)]]
     (init ''RELIANCE.NS'' 0.1 (- 0.5) 5 ''1m''))) = [None, Some Take_Profit] \<and>
   \<not> isl (run_st [Fetched [(0, 100)], Fetched [(0, 100), (60, 99.8)]]
     (init_st ''RELIANCE.NS'' 0.1 (- 0.5) 5 ''1m'')) \<and>
   map t_reason (trades (projr (run_st [Fetched [(0, 100)], Fetched [(0, 100), (60, 99.8)]]
     (init_st ''RELIANCE.NS'' 0.1 (- 0.5) 5 ''1m'')))) = [None, Some Take_Profit] \<and>
   \<not> isl (run_st [Fetched [(0, 100)], Fetched [(0, 100), (360, 100.1)]]
     (init_st ''RELIANCE.NS'' 0.1 0.2 5 ''1m'')) \<and>
   map t_reason (trades (projr (run_st [Fetched [(0, 100)], Fetched [(0, 100), (360, 100.1)]]
     (init_st ''RELIANCE.NS'' 0.1 0.2 5 ''1m'')))) = [None, Some Stop_Loss]"
  by (simp add: bot_defs st_defs)

text \<open>
  C3. With the default configuration (a maximal hold of 5 minutes) the bot of
  \<^verbatim>\<open>Streamlit/bot.py\<close> buys at the bar (0, 100). The close 100 is over the stop-loss
  threshold and under the take-profit threshold. \<^verbatim>\<open>calculate_signals\<close> answers HOLD at
  240 seconds and SELL at 300 seconds, the boundary; the SELL that \<^verbatim>\<open>execute_trade\<close>
  appends for the bar at the boundary has the reason Stop Loss.
\<close>

theorem time_exit_recorded_as_stop_loss:
  "\<not> isl (run_st [Fetched [(0, 100)]] (init_st ''RELIANCE.NS'' 0.1 0.2 5 ''1m'')) \<and>
   \<not> (100 :: real) \<le>
     entry_price (projr (run_st [Fetched [(0, 100)]] (init_st ''RELIANCE.NS'' 0.1 0.2 5 ''1m''))) *
     (1 - stop_loss_percent
        (projr (run_st [Fetched [(0, 100)]] (init_st ''RELIANCE.NS'' 0.1 0.2 5 ''1m'')))) \<and>
   \<not> (100 :: real) \<ge>
     entry_price (projr (run_st [Fetched [(0, 100)]] (init_st ''RELIANCE.NS'' 0.1 0.2 5 ''1m''))) *
     (1 + take_profit_percent
        (projr (run_st [Fetched [(0, 100)]] (init_st ''RELIANCE.NS'' 0.1 0.2 5 ''1m'')))) \<and>
   calculate_signals_st
     (projr (run_st [Fetched [(0, 100)]] (init_st ''RELIANCE.NS'' 0.1 0.2 5 ''1m'')))
     100 240 = Inr HOLD \<and>
   calculate_signals_st
     (projr (run_st [Fetched [(0, 100)]] (init_st ''RELIANCE.NS'' 0.1 0.2 5 ''1m'')))
     100 300 = Inr SELL \<and>
   \<not> isl (run_st [Fetched [(0, 100)], Fetched [(0, 100), (300, 100)]]
     (init_st ''RELIANCE.NS'' 0.1 0.2 5 ''1m'')) \<and>
   map t_reason (trades (projr (run_st [Fetched [(0, 100)], Fetched [(0, 100), (300, 100)]]
     (init_st ''RELIANCE.NS'' 0.1 0.2 5 ''1m'')))) = [None, Some Stop_Loss]"
  by (simp add: st_defs Let_def)

section \<open>The strategies\<close>

lemmas strategy_defs = fixed_init_def enhanced_init_def fixed_next_def enhanced_next_def
  adjust_trailing_stop_def exit_chain_def

text \<open>\<^verbatim>\<open>FixedExitStrategy.next\<close> with a position: the first test that holds, in the order
  stop-loss, take-profit, time, gives the reason.\<close>

lemma fixed_next_first_match:
  assumes "in_position b" and "fx_entry_price s = Some ep" and "fx_entry_time s = Some et"
  shows "fixed_next b s =
           Inr (if close b \<le> ep * (1 - fx_stop_loss_percent s)
                  \<or> close b \<ge> ep * (1 + fx_take_profit_percent s)
                  \<or> (datetime b - et) / 60 \<ge> fx_max_hold_minutes s
                then s\<lparr>fx_order := Some SELL,
                       fx_trades := fx_trades s @
                         [\<lparr>buy_time = et, buy_price = ep, sell_time = datetime b,
                           sell_price = close b,
                           reason =
                             (if close b \<le> ep * (1 - fx_stop_loss_percent s) then Stop_Loss
                              else if close b \<ge> ep * (1 + fx_take_profit_percent s)
                                then Take_Profit
                              else Time_Exit)\<rparr>]\<rparr>
                else s)"
  using assms by (simp add: fixed_next_def Let_def)

text \<open>\<^verbatim>\<open>EnhancedStrategy.next\<close> with a position, once a buy has set the attributes: the
  trailing stop is adjusted first, and the time test comes after the chain and outside it.\<close>

lemma enhanced_next_in_position:
  assumes "in_position b" and "en_entry_price s = Some ep" and "en_trailing_stop s = Some tr"
    and "en_stop_loss s = Some sl" and "en_take_profit s = Some tp"
    and "en_entry_time s = Some et"
    and "tr' = (if close b > ep \<and> close b > tr
                then max tr (close b * (1 - en_trailing_percent s)) else tr)"
  shows "enhanced_next b s =
           Inr (if (datetime b - et) / 60 \<ge> en_max_hold_minutes s \<or> close b \<le> sl
                  \<or> close b \<ge> tp \<or> close b \<le> tr'
                then s\<lparr>en_trailing_stop := Some tr',
                       en_sell_signals := en_sell_signals s @ [(datetime b, close b)],
                       en_order := Some SELL,
                       en_trades := en_trades s @
                         [\<lparr>buy_time = et, buy_price = ep, sell_time = datetime b,
                           sell_price = close b,
                           reason =
                             (if (datetime b - et) / 60 \<ge> en_max_hold_minutes s then Time_Exit
                              else if close b \<le> sl then Stop_Loss
                              else if close b \<ge> tp then Take_Profit
                              else Trailing_Stop)\<rparr>]\<rparr>
                else s\<lparr>en_trailing_stop := Some tr'\<rparr>)"
  using assms
  by (auto simp: enhanced_next_def adjust_trailing_stop_def exit_chain_def Let_def)

text \<open>
  C2. \<^verbatim>\<open>EnhancedStrategy\<close> with its default parameters buys at the bar (0, 100) with an
  ATR of 1: the stop loss is 98, the take profit 102. Sixty minutes later, the maximal hold,
  a bar closes at 97, under the stop loss, and another run at 103, over the take profit: in
  both the trade has the reason Time Exit. \<^verbatim>\<open>FixedExitStrategy\<close>, with a maximal hold of 5
  minutes, a stop-loss of 0.1 percent and an entry at 100, gives the close 99.8 at 5 minutes
  the reason Stop Loss.
\<close>

theorem time_exit_overrides_chain:
  "\<not> isl (enhanced_next
       \<lparr>datetime = 0, close = 100, ema_short = 2, ema_long = 1, rsi = 25, atr = 1,
        in_position = False\<rparr> (enhanced_init 2 60 0.01)) \<and>
   en_stop_loss (projr (enhanced_next
       \<lparr>datetime = 0, close = 100, ema_short = 2, ema_long = 1, rsi = 25, atr = 1,
        in_position = False\<rparr> (enhanced_init 2 60 0.01))) = Some 98 \<and>
   en_take_profit (projr (enhanced_next
       \<lparr>datetime = 0, close = 100, ema_short = 2, ema_long = 1, rsi = 25, atr = 1,
        in_position = False\<rparr> (enhanced_init 2 60 0.01))) = Some 102 \<and>
   \<not> isl (enhanced_next
       \<lparr>datetime = 3600, close = 97, ema_short = 2, ema_long = 1, rsi = 25, atr = 1,
        in_position = True\<rparr>
       (projr (enhanced_next
          \<lparr>datetime = 0, close = 100, ema_short = 2, ema_long = 1, rsi = 25, atr = 1,
           in_position = False\<rparr> (enhanced_init 2 60 0.01)))) \<and>
   map reason (en_trades (projr (enhanced_next
       \<lparr>datetime = 3600, close = 97, ema_short = 2, ema_long = 1, rsi = 25, atr = 1,
        in_position = True\<rparr>
       (projr (enhanced_next
          \<lparr>datetime = 0, close = 100, ema_short = 2, ema_long = 1, rsi = 25, atr = 1,
           in_position = False\<rparr> (enhanced_init 2 60 0.01)))))) = [Time_Exit] \<and>
   map reason (en_trades (projr (enhanced_next
       \<lparr>datetime = 3600, close = 103, ema_short = 2, ema_long = 1, rsi = 25, atr = 1,
        in_position = True\<rparr>
       (projr (enhanced_next
          \<lparr>datetime = 0, close = 100, ema_short = 2, ema_long = 1, rsi = 25, atr = 1,
           in_position = False\<rparr> (enhanced_init 2 60 0.01)))))) = [Time_Exit] \<and>
   map reason (fx_trades (projr (fixed_next
       \<lparr>datetime = 300, close = 99.8, ema_short = 0, ema_long = 0, rsi = 0, atr = 0,
        in_position = True\<rparr>
       (projr (fixed_next
          \<lparr>datetime = 0, close = 100, ema_short = 0, ema_long = 0, rsi = 0, atr = 0,
           in_position = False\<rparr> (fixed_init 0.001 0.002 5)))))) = [Stop_Loss]"
  by (simp add: strategy_defs Let_def)

text \<open>
  C5. \<^verbatim>\<open>EnhancedStrategy.next\<close> sets the trailing stop, at the bar where it buys, to the
  entry price times one less the trailing fraction. At a bar with a position it returns, and
  the new trailing stop is never under the old one; for a trailing fraction and an entry price
  that are not negative, the new trailing stop is the greater of the old one and the close
  times one less the trailing fraction if the close is over the entry price, and the old one
  if not; the entry price and the other thresholds stay as they are; and a trade is made
  exactly when the time test, the stop-loss test, the take-profit test or the test of the
  close against the new trailing stop holds.
\<close>

theorem trailing_stop_never_falls:
  "(\<not> in_position b \<and> ema_short b > ema_long b \<and> rsi b < 30 \<longrightarrow>
      \<not> isl (enhanced_next b s) \<and>
      en_entry_price (projr (enhanced_next b s)) = Some (close b) \<and>
      en_trailing_stop (projr (enhanced_next b s)) =
        Some (close b * (1 - en_trailing_percent s))) \<and>
   (in_position b \<and> en_entry_price s = Some ep \<and> en_trailing_stop s = Some tr \<and>
    en_stop_loss s = Some sl \<and> en_take_profit s = Some tp \<and> en_entry_time s = Some et \<longrightarrow>
      \<not> isl (enhanced_next b s) \<and>
      en_trailing_stop (projr (enhanced_next b s)) \<noteq> None \<and>
      tr \<le> the (en_trailing_stop (projr (enhanced_next b s))) \<and>
      (0 \<le> en_trailing_percent s \<and> 0 \<le> ep \<longrightarrow>
         the (en_trailing_stop (projr (enhanced_next b s))) =
           (if close b > ep then max tr (close b * (1 - en_trailing_percent s)) else tr)) \<and>
      en_entry_price (projr (enhanced_next b s)) = Some ep \<and>
      en_stop_loss (projr (enhanced_next b s)) = Some sl \<and>
      en_take_profit (projr (enhanced_next b s)) = Some tp \<and>
      en_entry_time (projr (enhanced_next b s)) = Some et \<and>
      en_trailing_percent (projr (enhanced_next b s)) = en_trailing_percent s \<and>
      (en_trades (projr (enhanced_next b s)) \<noteq> en_trades s) =
        ((datetime b - et) / 60 \<ge> en_max_hold_minutes s \<or> close b \<le> sl \<or> close b \<ge> tp \<or>
         close b \<le> the (en_trailing_stop (projr (enhanced_next b s)))))"
proof -
  have buy: "\<not> isl (enhanced_next b s) \<and>
      en_entry_price (projr (enhanced_next b s)) = Some (close b) \<and>
      en_trailing_stop (projr (enhanced_next b s)) =
        Some (close b * (1 - en_trailing_percent s))"
    if "\<not> in_position b" "ema_short b > ema_long b" "rsi b < 30"
    using that by (simp add: enhanced_next_def Let_def)
  have hold: "\<not> isl (enhanced_next b s) \<and>
      en_trailing_stop (projr (enhanced_next b s)) \<noteq> None \<and>
      tr \<le> the (en_trailing_stop (projr (enhanced_next b s))) \<and>
      (0 \<le> en_trailing_percent s \<and> 0 \<le> ep \<longrightarrow>
         the (en_trailing_stop (projr (enhanced_next b s))) =
           (if close b > ep then max tr (close b * (1 - en_trailing_percent s)) else tr)) \<and>
      en_entry_price (projr (enhanced_next b s)) = Some ep \<and>
      en_stop_loss (projr (enhanced_next b s)) = Some sl \<and>
      en_take_profit (projr (enhanced_next b s)) = Some tp \<and>
      en_entry_time (projr (enhanced_next b s)) = Some et \<and>
      en_trailing_percent (projr (enhanced_next b s)) = en_trailing_percent s \<and>
      (en_trades (projr (enhanced_next b s)) \<noteq> en_trades s) =
        ((datetime b - et) / 60 \<ge> en_max_hold_minutes s \<or> close b \<le> sl \<or> close b \<ge> tp \<or>
         close b \<le> the (en_trailing_stop (projr (enhanced_next b s))))"
    if a: "in_position b" "en_entry_price s = Some ep" "en_trailing_stop s = Some tr"
      "en_stop_loss s = Some sl" "en_take_profit s = Some tp" "en_entry_time s = Some et"
  proof -
    define tr' where "tr' = (if close b > ep \<and> close b > tr
                then max tr (close b * (1 - en_trailing_percent s)) else tr)"
    have eq: "tr' =
        (if close b > ep then max tr (close b * (1 - en_trailing_percent s)) else tr)"
      if f: "0 \<le> en_trailing_percent s" and e: "0 \<le> ep"
    proof -
      have "close b * (1 - en_trailing_percent s) \<le> close b" if "close b > ep"
      proof -
        from that e have "0 \<le> close b" by simp
        with f have "0 \<le> close b * en_trailing_percent s" by simp
        then show ?thesis by (simp add: algebra_simps)
      qed
      then show ?thesis by (auto simp: tr'_def max_def)
    qed
    have le: "tr \<le> tr'" by (simp add: tr'_def)
    show ?thesis
      unfolding enhanced_next_in_position [OF a tr'_def]
      using le a eq by simp
  qed
  from buy hold show ?thesis by blast
qed

theorem trailing_stop_never_falls_witness:
  "\<not> in_position \<lparr>datetime = 0, close = 100, ema_short = 2, ema_long = 1, rsi = 25, atr = 1,
        in_position = False\<rparr> \<and>
   en_trailing_stop (projr (enhanced_next
       \<lparr>datetime = 0, close = 100, ema_short = 2, ema_long = 1, rsi = 25, atr = 1,
        in_position = False\<rparr> (enhanced_init 2 60 0.01))) = Some 99 \<and>
   en_entry_price (projr (enhanced_next
       \<lparr>datetime = 0, close = 100, ema_short = 2, ema_long = 1, rsi = 25, atr = 1,
        in_position = False\<rparr> (enhanced_init 2 60 0.01))) = Some 100 \<and>
   en_stop_loss (projr (enhanced_next
       \<lparr>datetime = 0, close = 100, ema_short = 2, ema_long = 1, rsi = 25, atr = 1,
        in_position = False\<rparr> (enhanced_init 2 60 0.01))) = Some 98 \<and>
   en_take_profit (projr (enhanced_next
       \<lparr>datetime = 0, close = 100, ema_short = 2, ema_long = 1, rsi = 25, atr = 1,
        in_position = False\<rparr> (enhanced_init 2 60 0.01))) = Some 102 \<and>
   en_entry_time (projr (enhanced_next
       \<lparr>datetime = 0, close = 100, ema_short = 2, ema_long = 1, rsi = 25, atr = 1,
        in_position = False\<rparr> (enhanced_init 2 60 0.01))) = Some 0 \<and>
   (0 :: real) \<le> en_trailing_percent (projr (enhanced_next
       \<lparr>datetime = 0, close = 100, ema_short = 2, ema_long = 1, rsi = 25, atr = 1,
        in_position = False\<rparr> (enhanced_init 2 60 0.01))) \<and>
   en_trailing_stop (projr (enhanced_next
       \<lparr>datetime = 60, close = 101, ema_short = 2, ema_long = 1, rsi = 25, atr = 1,
        in_position = True\<rparr>
       (projr (enhanced_next
          \<lparr>datetime = 0, close = 100, ema_short = 2, ema_long = 1, rsi = 25, atr = 1,
           in_position = False\<rparr> (enhanced_init 2 60 0.01))))) = Some 99.99 \<and>
   en_trades (projr (enhanced_next
       \<lparr>datetime = 60, close = 101, ema_short = 2, ema_long = 1, rsi = 25, atr = 1,
        in_position = True\<rparr>
       (projr (enhanced_next
          \<lparr>datetime = 0, close = 100, ema_short = 2, ema_long = 1, rsi = 25, atr = 1,
           in_position = False\<rparr> (enhanced_init 2 60 0.01))))) = []"
  using trailing_stop_never_falls [of
      "\<lparr>datetime = 0, close = 100, ema_short = 2, ema_long = 1, rsi = 25, atr = 1,
        in_position = False\<rparr>" "enhanced_init 2 60 0.01" 0 0 0 0 0]
    trailing_stop_never_falls [of
      "\<lparr>datetime = 60, close = 101, ema_short = 2, ema_long = 1, rsi = 25, atr = 1,
        in_position = True\<rparr>"
      "projr (enhanced_next
          \<lparr>datetime = 0, close = 100, ema_short = 2, ema_long = 1, rsi = 25, atr = 1,
           in_position = False\<rparr> (enhanced_init 2 60 0.01))" 100 99 98 102 0]
  by (simp add: strategy_defs Let_def)

end
